theory Spec2Isabelle
  imports Complex_Main "HOL-Library.Multiset"
begin

section \<open>Values, exceptions and page output\<close>

text \<open>
  The application is one Streamlit script, \<^verbatim>\<open>image_similarity_streamlit_app.py\<close>. Its
  functions talk to three outside parties: the Snowflake session (SQL and stage files), the
  Cortex Search service \<^verbatim>\<open>IMAGES_CS_SERVICE\<close> and the page. What the outside parties answer
  is a parameter of the model (record \<open>env\<close>); what the script changes is passed along
  explicitly (record \<open>state\<close>). An exception is a value: a call that may raise returns a
  sum with the exception on the left.

  Column values that come back from the search service are Python values; the three kinds
  the script can tell apart (by \<^verbatim>\<open>str\<close> and by truth value) are modelled. A Python dict is
  an association list in insertion order. Strings are byte strings, a character outside
  ASCII being its UTF-8 bytes.
\<close>

datatype pyval = PNone | PStr string | PInt int

type_synonym pydict = "(string \<times> pyval) list"

type_synonym vector = "real list"

type_synonym blob = "nat list"

datatype exn = Exception string

fun str_exn :: "exn \<Rightarrow> string" where
  "str_exn (Exception m) = m"

definition digit_char :: "nat \<Rightarrow> char" where
  "digit_char d = char_of (48 + d)"

function str_nat :: "nat \<Rightarrow> string" where
  "str_nat n = (if n < 10 then [digit_char n] else str_nat (n div 10) @ [digit_char (n mod 10)])"
  by pat_completeness auto
termination
  by (relation "measure id") auto

declare str_nat.simps [simp del]

definition str_int :: "int \<Rightarrow> string" where
  "str_int i = (if i < 0 then CHR ''-'' # str_nat (nat (- i)) else str_nat (nat i))"

fun str_pyval :: "pyval \<Rightarrow> string" where
  "str_pyval PNone = ''None''"
| "str_pyval (PStr s) = s"
| "str_pyval (PInt i) = str_int i"

fun truthy :: "pyval \<Rightarrow> bool" where
  "truthy PNone = False"
| "truthy (PStr s) = (s \<noteq> [])"
| "truthy (PInt i) = (i \<noteq> 0)"

text \<open>\<^verbatim>\<open>d.get(k, dflt)\<close>: the default only when the key is absent.\<close>

definition dict_get :: "pydict \<Rightarrow> string \<Rightarrow> pyval \<Rightarrow> pyval" where
  "dict_get d k dflt = (case map_of d k of None \<Rightarrow> dflt | Some v \<Rightarrow> v)"

text \<open>A PIL image: its mode and its pixel data.\<close>

record image =
  mode :: string
  pixels :: "nat list"

datatype shown = Val pyval | Pil image

text \<open>
  The page is the list of what the script has written to it, oldest first:
  \<^verbatim>\<open>st.error\<close>, \<^verbatim>\<open>st.warning\<close>, \<^verbatim>\<open>st.success\<close>, \<^verbatim>\<open>st.subheader\<close> and
  \<^verbatim>\<open>st.image\<close> (what is shown, and its caption). Layout calls (columns, spinner) write
  nothing of their own.
\<close>

datatype ui =
    Error string
  | Warning string
  | Success string
  | Subheader string
  | Picture shown string

text \<open>
  A row of the table \<^verbatim>\<open>IMAGES_TABLE_DOWNLOADED_VECT\<close>, with the four columns the script
  selects. The source does not show the type of \<^verbatim>\<open>SOURCE_ID\<close>; any linearly ordered type
  stands for it. A NULL vector is \<open>None\<close>.
\<close>

record 'i image_row =
  SOURCE_ID :: 'i
  ORIGINAL_URL :: string
  STAGE_FILE_PATH :: string
  IMAGE_VECTOR :: "vector option"

text \<open>
  The outside parties.
  \<^item> \<open>cortex_search e v k\<close>: what \<^verbatim>\<open>my_service.search(multi_index_query={"image_vector":
    [{"vector": v}]}, columns=[...], limit=k)\<close> does, resolving the service included: it
    raises, or it answers with \<^verbatim>\<open>resp.results\<close>. The index, the distance and the ranking
    live inside the service; the script holds none of them.
  \<^item> \<open>table_scan e\<close>: the rows of the table as stored, or the exception the query raises.
  \<^item> \<open>image_open\<close>, \<open>recode\<close>, \<open>image_save\<close>: PIL's decoder, its mode conversion of pixel
    data (from one mode to another) and its encoder for a named format; each may raise.
  \<^item> \<open>file_put e local_name stage_dir\<close>: the exception raised by the transfer of
    \<^verbatim>\<open>session.file.put\<close>, if any.
  \<^item> \<open>ai_embed e data\<close>: the rows returned by \<^verbatim>\<open>SELECT AI_EMBED('voyage-multimodal-3',
    TO_FILE(...)) as image_vector\<close> for a staged file holding \<open>data\<close>, each row given by its
    \<^verbatim>\<open>IMAGE_VECTOR\<close> column, or the exception raised.
  \<^item> \<open>st_image e x\<close>: the exception raised by \<^verbatim>\<open>st.image\<close> on \<open>x\<close>, if any.
\<close>

record 'i env =
  cortex_search :: "vector option \<Rightarrow> int \<Rightarrow> exn + pydict list"
  table_scan :: "exn + 'i image_row list"
  image_open :: "blob \<Rightarrow> exn + image"
  recode :: "string \<Rightarrow> string \<Rightarrow> nat list \<Rightarrow> exn + nat list"
  image_save :: "image \<Rightarrow> string \<Rightarrow> exn + blob"
  file_put :: "string \<Rightarrow> string \<Rightarrow> exn option"
  ai_embed :: "blob \<Rightarrow> exn + vector option list"
  st_image :: "shown \<Rightarrow> exn option"

text \<open>
  What the script changes: the page, the value cached by \<^verbatim>\<open>@st.cache_data\<close>, local
  files, the files of the stage, and the inputs on which the embedding model has been run.
\<close>

record 'i state =
  page :: "ui list"
  images_cache :: "('i image_row list \<times> ui list) option"
  local_files :: "string \<rightharpoonup> blob"
  stage :: "string \<rightharpoonup> blob"
  embed_log :: "blob list"

definition st_emit :: "ui \<Rightarrow> 'i state \<Rightarrow> 'i state" where
  "st_emit u s = s\<lparr>page := page s @ [u]\<rparr>"

definition STAGE_NAME :: string where
  "STAGE_NAME = ''IMAGES''"

section \<open>query_cortex_search\<close>

text \<open>
  Lines 31 to 73. The loop over \<^verbatim>\<open>resp.results\<close> builds one dict of three keys per row
  and appends it; it is \<open>map result_dict\<close>. A vector that has no \<^verbatim>\<open>__len__\<close> (a NULL
  vector, \<open>None\<close>) is reported as \<^verbatim>\<open>Unknown\<close>. The handler catches every exception, writes
  three lines to the page and returns the empty list.
\<close>

definition result_dict :: "pydict \<Rightarrow> pydict" where
  "result_dict result =
     [(''SOURCE_ID'', dict_get result ''source_id'' (PStr ''N/A'')),
      (''ORIGINAL_URL'', dict_get result ''original_url'' (PStr '''')),
      (''STAGE_FILE_PATH'', dict_get result ''stage_file_path'' (PStr ''N/A''))]"

definition vector_length_text :: "vector option \<Rightarrow> string" where
  "vector_length_text query_vector =
     (case query_vector of Some v \<Rightarrow> str_nat (length v) | None \<Rightarrow> ''Unknown'')"

definition query_cortex_search ::
  "'i env \<Rightarrow> 'i state \<Rightarrow> string \<Rightarrow> vector option \<Rightarrow> int \<Rightarrow> pydict list \<times> 'i state" where
  "query_cortex_search e s query_text query_vector top_k =
     (case cortex_search e query_vector top_k of
        Inr results \<Rightarrow> (map result_dict results, s)
      | Inl err \<Rightarrow>
          ([], st_emit (Error (''Vector length: '' @ vector_length_text query_vector))
                (st_emit (Error (''Query text: '' @ query_text))
                  (st_emit (Error (''Search error: '' @ str_exn err)) s))))"

section \<open>get_available_images\<close>

text \<open>
  Lines 76 to 93. The SQL text selects the four columns of the table and ends in
  \<^verbatim>\<open>ORDER BY SOURCE_ID\<close>: the answer of \<^verbatim>\<open>session.sql(query).collect()\<close> is the stored rows
  sorted by that column (the order among rows of equal \<^verbatim>\<open>SOURCE_ID\<close> is the database's;
  nothing below depends on it). The function is decorated with \<^verbatim>\<open>@st.cache_data\<close>: the
  first call runs the body and stores its value together with what it wrote to the page,
  a later call returns the stored value and writes the same again.
\<close>

definition session_sql_images :: "('i::linorder) env \<Rightarrow> exn + 'i image_row list" where
  "session_sql_images e =
     (case table_scan e of
        Inl err \<Rightarrow> Inl err
      | Inr rows \<Rightarrow> Inr (sort_key SOURCE_ID rows))"

definition get_available_images_body ::
  "('i::linorder) env \<Rightarrow> 'i image_row list \<times> ui list" where
  "get_available_images_body e =
     (case session_sql_images e of
        Inr result \<Rightarrow> (result, [])
      | Inl err \<Rightarrow> ([], [Error (''Error loading images: '' @ str_exn err)]))"

definition get_available_images ::
  "('i::linorder) env \<Rightarrow> 'i state \<Rightarrow> 'i image_row list \<times> 'i state" where
  "get_available_images e s =
     (case images_cache s of
        Some (result, replayed) \<Rightarrow> (result, s\<lparr>page := page s @ replayed\<rparr>)
      | None \<Rightarrow>
          (let (result, emitted) = get_available_images_body e
           in (result, s\<lparr>page := page s @ emitted, images_cache := Some (result, emitted)\<rparr>)))"

section \<open>display_image_grid\<close>

text \<open>
  Lines 96 to 135. The \<^verbatim>\<open>query_info\<close> dict has the keys its two callers give it, each
  present or absent; it is empty (false in Python) when none is present. A missing
  \<^verbatim>\<open>url\<close> raises \<^verbatim>\<open>KeyError('url')\<close>, which prints with its quotes. The two nested loops
  visit the results in order, result number \<open>n\<close> (from 0) being labelled \<open>n + 1\<close>.
\<close>

record query_info =
  uploaded_image :: "image option"
  url :: "pyval option"
  file_path :: "pyval option"
  source_id :: "pyval option"

definition nonempty_info :: "query_info \<Rightarrow> bool" where
  "nonempty_info qi =
     (uploaded_image qi \<noteq> None \<or> url qi \<noteq> None \<or> file_path qi \<noteq> None \<or> source_id qi \<noteq> None)"

definition target_sign :: string where
  "target_sign = [CHR 0xF0, CHR 0x9F, CHR 0x8E, CHR 0xAF]"

definition chart_sign :: string where
  "chart_sign = [CHR 0xF0, CHR 0x9F, CHR 0x93, CHR 0x8A]"

definition check_sign :: string where
  "check_sign = [CHR 0xE2, CHR 0x9C, CHR 0x85]"

definition cross_sign :: string where
  "cross_sign = [CHR 0xE2, CHR 0x9D, CHR 0x8C]"

definition show_query_image :: "'i env \<Rightarrow> query_info \<Rightarrow> ui" where
  "show_query_image e qi =
     (case uploaded_image qi of
        Some img \<Rightarrow>
          (case st_image e (Pil img) of
             None \<Rightarrow> Picture (Pil img) ''Uploaded Image''
           | Some err \<Rightarrow> Error (''Error displaying query image: '' @ str_exn err))
      | None \<Rightarrow>
          (case url qi of
             None \<Rightarrow> Error (''Error displaying query image: '' @ [CHR 0x27] @ ''url'' @ [CHR 0x27])
           | Some u \<Rightarrow>
               (case st_image e (Val u) of
                  None \<Rightarrow>
                    Picture (Val u)
                      (''Query: '' @ (case file_path qi of
                                        None \<Rightarrow> ''Unknown''
                                      | Some p \<Rightarrow> str_pyval p))
                | Some err \<Rightarrow> Error (''Error displaying query image: '' @ str_exn err))))"

definition show_result :: "'i env \<Rightarrow> nat \<Rightarrow> pydict \<Rightarrow> ui" where
  "show_result e n result =
     (let sid = dict_get result ''SOURCE_ID'' (PStr ''N/A'');
          u = dict_get result ''ORIGINAL_URL'' (PStr '''');
          path = dict_get result ''STAGE_FILE_PATH'' (PStr ''N/A'')
      in if truthy u then
           (case st_image e (Val u) of
              None \<Rightarrow>
                Picture (Val u)
                  (''#'' @ str_nat (n + 1) @ '': ID '' @ str_pyval sid @ [CHR 0x0A]
                     @ str_pyval path)
            | Some err \<Rightarrow>
                Error (''Error loading image #'' @ str_nat (n + 1) @ '': '' @ str_exn err))
         else Error (''No URL for result #'' @ str_nat (n + 1)))"

fun show_results :: "'i env \<Rightarrow> nat \<Rightarrow> pydict list \<Rightarrow> ui list" where
  "show_results e n [] = []"
| "show_results e n (result # rest) = show_result e n result # show_results e (Suc n) rest"

definition display_image_grid ::
  "'i env \<Rightarrow> 'i state \<Rightarrow> pydict list \<Rightarrow> query_info option \<Rightarrow> 'i state" where
  "display_image_grid e s results query_info =
     (if results = [] then st_emit (Warning ''No results to display'') s
      else
        s\<lparr>page := page s
             @ (case query_info of
                  None \<Rightarrow> []
                | Some qi \<Rightarrow>
                    if nonempty_info qi
                    then [Subheader (target_sign @ '' Query Image''), show_query_image e qi]
                    else [])
             @ [Subheader (chart_sign @ '' Top '' @ str_nat (length results) @ '' Similar Images'')]
             @ show_results e 0 results\<rparr>)"

section \<open>The upload search of the second tab\<close>

text \<open>
  Lines 264 to 323, run when a file is uploaded and the button is pressed. \<open>tmp_name\<close> is
  the name \<^verbatim>\<open>tempfile.NamedTemporaryFile(delete=False, suffix='.jpeg')\<close> hands out; the
  file exists, empty, from then on. \<open>upload_search_body\<close> is the body of the \<^verbatim>\<open>try\<close>:
  it returns the exception that left it, if any, with the state reached by then.
  \<^verbatim>\<open>Image.open\<close>, \<^verbatim>\<open>image.convert('RGB')\<close> (called only when the mode is not RGB; its
  result has the mode asked for) and \<^verbatim>\<open>image.save\<close> may each raise.
  \<^verbatim>\<open>session.file.put\<close> copies the local file into the stage directory under its base name
  (\<^verbatim>\<open>overwrite=True, auto_compress=False\<close>); the embedding statement reads that staged
  file, and each run of the statement on a file is recorded in \<open>embed_log\<close>.
\<close>

record uploaded_file =
  name :: string
  content :: blob

definition basename :: "string \<Rightarrow> string" where
  "basename p = rev (takeWhile (\<lambda>c. c \<noteq> CHR ''/'') (rev p))"

definition stage_temp_dir :: string where
  "stage_temp_dir = ''@'' @ STAGE_NAME @ ''/temp/''"

definition image_convert :: "'i env \<Rightarrow> image \<Rightarrow> string \<Rightarrow> exn + image" where
  "image_convert e img m =
     (case recode e (mode img) m (pixels img) of
        Inl err \<Rightarrow> Inl err
      | Inr px \<Rightarrow> Inr \<lparr>mode = m, pixels = px\<rparr>)"

definition to_rgb :: "'i env \<Rightarrow> image \<Rightarrow> exn + image" where
  "to_rgb e img = (if mode img \<noteq> ''RGB'' then image_convert e img ''RGB'' else Inr img)"

definition session_file_put :: "'i env \<Rightarrow> 'i state \<Rightarrow> string \<Rightarrow> string \<Rightarrow> exn + 'i state" where
  "session_file_put e s local_name stage_dir =
     (case file_put e local_name stage_dir of
        Some err \<Rightarrow> Inl err
      | None \<Rightarrow>
          (case local_files s local_name of
             None \<Rightarrow> Inl (Exception (''File not found: '' @ local_name))
           | Some data \<Rightarrow> Inr (s\<lparr>stage := (stage s)(stage_dir @ basename local_name \<mapsto> data)\<rparr>)))"

definition session_sql_embed ::
  "'i env \<Rightarrow> 'i state \<Rightarrow> string \<Rightarrow> (exn + vector option list) \<times> 'i state" where
  "session_sql_embed e s stage_path =
     (case stage s stage_path of
        None \<Rightarrow> (Inl (Exception (''File not found: '' @ stage_path)), s)
      | Some data \<Rightarrow> (ai_embed e data, s\<lparr>embed_log := embed_log s @ [data]\<rparr>))"

definition os_unlink :: "string \<Rightarrow> 'i state \<Rightarrow> 'i state" where
  "os_unlink path s = s\<lparr>local_files := (local_files s)(path := None)\<rparr>"

definition search_and_show ::
  "'i env \<Rightarrow> 'i state \<Rightarrow> uploaded_file \<Rightarrow> image \<Rightarrow> vector option \<Rightarrow> int \<Rightarrow> 'i state" where
  "search_and_show e s file img uploaded_vector top_k_upload =
     (let (results, s1) = query_cortex_search e s (name file) uploaded_vector top_k_upload;
          qi = \<lparr>uploaded_image = Some img, url = None, file_path = Some (PStr (name file)),
                source_id = None\<rparr>;
          s2 = display_image_grid e s1 results (Some qi)
      in st_emit (Success (check_sign @ '' Found '' @ str_nat (length results)
                             @ '' similar images!'')) s2)"

definition upload_search_body ::
  "'i env \<Rightarrow> 'i state \<Rightarrow> uploaded_file \<Rightarrow> string \<Rightarrow> int \<Rightarrow> exn option \<times> 'i state" where
  "upload_search_body e s file tmp_name top_k_upload =
     (case image_open e (content file) of
        Inl err \<Rightarrow> (Some err, s)
      | Inr opened \<Rightarrow>
          (case to_rgb e opened of
             Inl err \<Rightarrow> (Some err, s)
           | Inr img \<Rightarrow>
               (case image_save e img ''JPEG'' of
                  Inl err \<Rightarrow> (Some err, s)
                | Inr data \<Rightarrow>
                    (let s1 = s\<lparr>local_files := (local_files s)(tmp_name \<mapsto> data)\<rparr> in
                     case session_file_put e s1 tmp_name stage_temp_dir of
                       Inl err \<Rightarrow> (Some err, s1)
                     | Inr s2 \<Rightarrow>
                         (let temp_filename = basename tmp_name in
                          case session_sql_embed e s2 (stage_temp_dir @ temp_filename) of
                            (Inl err, s3) \<Rightarrow> (Some err, s3)
                          | (Inr vector_result, s3) \<Rightarrow>
                              (let s4 = (case vector_result of
                                           [] \<Rightarrow> s3
                                         | uploaded_vector # _ \<Rightarrow>
                                             search_and_show e s3 file img uploaded_vector
                                               top_k_upload)
                               in (None, os_unlink tmp_name s4)))))))"

definition upload_search ::
  "'i env \<Rightarrow> 'i state \<Rightarrow> uploaded_file \<Rightarrow> string \<Rightarrow> int \<Rightarrow> 'i state" where
  "upload_search e s file tmp_name top_k_upload =
     (let s0 = s\<lparr>local_files := (local_files s)(tmp_name \<mapsto> [])\<rparr> in
      case upload_search_body e s0 file tmp_name top_k_upload of
        (None, s1) \<Rightarrow> s1
      | (Some err, s1) \<Rightarrow>
          (let s2 = st_emit (Error (cross_sign @ '' Upload search failed: '' @ str_exn err)) s1
           in if local_files s2 tmp_name \<noteq> None then os_unlink tmp_name s2 else s2))"

section \<open>Concrete surroundings\<close>

text \<open>
  A small world to run the script in: a table of two images, a search service over
  two-dimensional vectors that rejects other dimensions and limits below one and otherwise
  answers with its first \<open>k\<close> rows (the second row lacks \<^verbatim>\<open>stage_file_path\<close>), a decoder
  that reads every non-empty file as an RGBA image, and an encoder that writes the JPEG
  marker bytes before the pixels. The variants change one party each: the search service
  unreachable, an empty corpus (with a service that answers everything, and with one that
  still rejects wrong dimensions and limits), the table unreadable, an embedding model of
  three dimensions.
\<close>

definition ex_rows :: "pydict list" where
  "ex_rows =
     [[(''source_id'', PStr ''img3''), (''original_url'', PStr ''https://img.example/3.jpg'')],
      [(''source_id'', PStr ''img1''), (''original_url'', PStr ''https://img.example/1.jpg''),
       (''stage_file_path'', PStr ''1.jpg'')]]"

definition ex_service :: "vector option \<Rightarrow> int \<Rightarrow> exn + pydict list" where
  "ex_service v k =
     (case v of
        None \<Rightarrow> Inl (Exception ''vector required'')
      | Some q \<Rightarrow>
          if length q \<noteq> 2 then Inl (Exception ''dimension mismatch'')
          else if k < 1 then Inl (Exception ''limit must be positive'')
          else Inr (take (nat k) ex_rows))"

definition ex_table :: "int image_row list" where
  "ex_table =
     [\<lparr>SOURCE_ID = 3, ORIGINAL_URL = ''https://img.example/3.jpg'', STAGE_FILE_PATH = ''3.jpg'',
        IMAGE_VECTOR = Some [9 / 10, 1 / 10]\<rparr>,
      \<lparr>SOURCE_ID = 1, ORIGINAL_URL = ''https://img.example/1.jpg'', STAGE_FILE_PATH = ''1.jpg'',
        IMAGE_VECTOR = Some [1, 0]\<rparr>]"

definition ex_env :: "int env" where
  "ex_env =
     \<lparr>cortex_search = ex_service,
      table_scan = Inr ex_table,
      image_open = (\<lambda>data. if data = [] then Inl (Exception ''cannot identify image file'')
                            else Inr \<lparr>mode = ''RGBA'', pixels = data\<rparr>),
      recode = (\<lambda>from to px. Inr px),
      image_save = (\<lambda>img fmt. Inr (255 # 216 # pixels img)),
      file_put = (\<lambda>local_name stage_dir. None),
      ai_embed = (\<lambda>data. Inr [Some [1, 0]]),
      st_image = (\<lambda>x. None)\<rparr>"

definition ex_env_down :: "int env" where
  "ex_env_down = ex_env\<lparr>cortex_search := (\<lambda>v k. Inl (Exception ''service unavailable''))\<rparr>"

definition ex_env_empty :: "int env" where
  "ex_env_empty = ex_env\<lparr>cortex_search := (\<lambda>v k. Inr []), table_scan := Inr []\<rparr>"

definition ex_env_void :: "int env" where
  "ex_env_void =
     ex_env\<lparr>cortex_search :=
               (\<lambda>v k. case ex_service v k of Inl err \<Rightarrow> Inl err | Inr rows \<Rightarrow> Inr []),
             table_scan := Inr []\<rparr>"

definition ex_env_lost :: "int env" where
  "ex_env_lost = ex_env\<lparr>table_scan := Inl (Exception ''table does not exist'')\<rparr>"

definition ex_env_wide :: "int env" where
  "ex_env_wide = ex_env\<lparr>ai_embed := (\<lambda>data. Inr [Some [1, 0, 0]])\<rparr>"

definition ex_state :: "int state" where
  "ex_state = \<lparr>page = [], images_cache = None, local_files = Map.empty, stage = Map.empty,
               embed_log = []\<rparr>"

definition ex_file :: uploaded_file where
  "ex_file = \<lparr>name = ''cat.png'', content = [137, 80, 78, 71]\<rparr>"

section \<open>Facts about the functions\<close>

lemma str_nat_digit: "n < 10 \<Longrightarrow> str_nat n = [digit_char n]"
  by (simp add: str_nat.simps)

lemma digit_chars:
  "digit_char 0 = CHR ''0''" "digit_char 1 = CHR ''1''" "digit_char 2 = CHR ''2''"
  "digit_char 3 = CHR ''3''" "digit_char 4 = CHR ''4''" "digit_char 5 = CHR ''5''"
  "digit_char 6 = CHR ''6''" "digit_char 7 = CHR ''7''" "digit_char 8 = CHR ''8''"
  "digit_char 9 = CHR ''9''"
  unfolding digit_char_def by code_simp+

lemma str_nat_small:
  "str_nat 0 = ''0''" "str_nat (Suc 0) = ''1''" "str_nat (Suc (Suc 0)) = ''2''"
  "str_nat (Suc (Suc (Suc 0))) = ''3''"
  by code_simp+

lemmas ex_defs = ex_env_def ex_service_def ex_rows_def ex_state_def ex_file_def ex_table_def
  ex_env_down_def ex_env_empty_def ex_env_void_def ex_env_lost_def ex_env_wide_def

lemmas run_defs = str_nat_small query_cortex_search_def st_emit_def vector_length_text_def
  str_nat_digit digit_chars upload_search_def upload_search_body_def to_rgb_def
  image_convert_def session_file_put_def session_sql_embed_def search_and_show_def
  display_image_grid_def os_unlink_def STAGE_NAME_def stage_temp_dir_def basename_def Let_def
  result_dict_def dict_get_def show_result_def show_query_image_def nonempty_info_def

lemma fst_query_cortex_search:
  "fst (query_cortex_search e s t v k) =
     (case cortex_search e v k of Inl err \<Rightarrow> [] | Inr rows \<Rightarrow> map result_dict rows)"
  by (simp add: query_cortex_search_def split: sum.split)

text \<open>The search and the grid write to the page only.\<close>

lemma query_cortex_search_keeps:
  "embed_log (snd (query_cortex_search e s t v k)) = embed_log s"
  "stage (snd (query_cortex_search e s t v k)) = stage s"
  "local_files (snd (query_cortex_search e s t v k)) = local_files s"
  "images_cache (snd (query_cortex_search e s t v k)) = images_cache s"
  by (simp_all add: query_cortex_search_def st_emit_def split: sum.split)

lemma display_image_grid_keeps:
  "embed_log (display_image_grid e s rs qi) = embed_log s"
  "stage (display_image_grid e s rs qi) = stage s"
  "local_files (display_image_grid e s rs qi) = local_files s"
  "images_cache (display_image_grid e s rs qi) = images_cache s"
  by (simp_all add: display_image_grid_def st_emit_def)

lemma search_and_show_keeps:
  "embed_log (search_and_show e s f img v k) = embed_log s"
  "stage (search_and_show e s f img v k) = stage s"
  "local_files (search_and_show e s f img v k) = local_files s"
  by (simp_all add: search_and_show_def st_emit_def display_image_grid_keeps
        query_cortex_search_keeps case_prod_beta Let_def)

text \<open>
  The conversion written out, and what the search and the grid add to the page.
\<close>

lemma to_rgb_spelled:
  "to_rgb e opened =
     (if mode opened \<noteq> ''RGB''
      then (case recode e (mode opened) ''RGB'' (pixels opened) of
              Inl err \<Rightarrow> Inl err
            | Inr px \<Rightarrow> Inr \<lparr>mode = ''RGB'', pixels = px\<rparr>)
      else Inr opened)"
  by (simp add: to_rgb_def image_convert_def)

lemma to_rgb_mode: "to_rgb e opened = Inr img \<Longrightarrow> mode img = ''RGB''"
  by (auto simp add: to_rgb_def image_convert_def split: if_splits sum.splits)

lemma query_cortex_search_page:
  "page (snd (query_cortex_search e s t v k))
     = page s @ (case cortex_search e v k of
                   Inr rows \<Rightarrow> []
                 | Inl err \<Rightarrow> [Error (''Search error: '' @ str_exn err),
                               Error (''Query text: '' @ t),
                               Error (''Vector length: '' @ vector_length_text v)])"
  by (simp add: query_cortex_search_def st_emit_def split: sum.split)

lemma display_image_grid_page_cong:
  "page s1 = page s2 \<Longrightarrow>
     page (display_image_grid e s1 rs qi) = page (display_image_grid e s2 rs qi)"
  by (simp add: display_image_grid_def st_emit_def)

lemma search_and_show_page:
  "page (search_and_show e s f img v k)
     = page (display_image_grid e
               (snd (query_cortex_search e s (name f) v k))
               (fst (query_cortex_search e s (name f) v k))
               (Some \<lparr>uploaded_image = Some img, url = None,
                       file_path = Some (PStr (name f)), source_id = None\<rparr>))
       @ [Success (check_sign @ '' Found ''
                     @ str_nat (length (fst (query_cortex_search e s (name f) v k)))
                     @ '' similar images!'')]"
  by (simp add: search_and_show_def case_prod_beta Let_def st_emit_def)

lemma search_and_show_page_cong:
  assumes "page s1 = page s2"
  shows "page (search_and_show e s1 f img v k) = page (search_and_show e s2 f img v k)"
proof -
  have a: "fst (query_cortex_search e s1 (name f) v k) = fst (query_cortex_search e s2 (name f) v k)"
    by (simp add: fst_query_cortex_search)
  have b: "page (snd (query_cortex_search e s1 (name f) v k))
             = page (snd (query_cortex_search e s2 (name f) v k))"
    by (simp add: query_cortex_search_page assms)
  show ?thesis
    unfolding search_and_show_page a
    using display_image_grid_page_cong [OF b] by simp
qed

text \<open>
  The upload search, outcome by outcome. Before the staging every failure leaves stage and
  log alone; after it the embedding statement has read the saved bytes.
\<close>

lemma upload_search_early_failure:
  assumes "(case image_open e (content f) of
              Inl err \<Rightarrow> True
            | Inr opened \<Rightarrow>
                (case to_rgb e opened of
                   Inl err \<Rightarrow> True
                 | Inr img \<Rightarrow>
                     (case image_save e img ''JPEG'' of
                        Inl err \<Rightarrow> True
                      | Inr data \<Rightarrow> file_put e tmp stage_temp_dir \<noteq> None)))"
  shows "embed_log (upload_search e s f tmp k) = embed_log s"
    and "stage (upload_search e s f tmp k) = stage s"
  using assms
  by (auto simp add: upload_search_def upload_search_body_def session_file_put_def Let_def
        st_emit_def os_unlink_def split: sum.splits option.splits)

lemma upload_search_staged:
  assumes "image_open e (content f) = Inr opened"
    and "to_rgb e opened = Inr img"
    and "image_save e img ''JPEG'' = Inr data"
    and "file_put e tmp stage_temp_dir = None"
  shows "embed_log (upload_search e s f tmp k) = embed_log s @ [data]"
    and "stage (upload_search e s f tmp k) = (stage s)(stage_temp_dir @ basename tmp \<mapsto> data)"
    and "page (upload_search e s f tmp k)
           = (case ai_embed e data of
                Inl err \<Rightarrow> page s @ [Error (cross_sign @ '' Upload search failed: '' @ str_exn err)]
              | Inr [] \<Rightarrow> page s
              | Inr (v # rest) \<Rightarrow> page (search_and_show e s f img v k))"
proof -
  let ?s3 = "s\<lparr>local_files := (local_files s)(tmp \<mapsto> data),
               stage := (stage s)(stage_temp_dir @ basename tmp \<mapsto> data),
               embed_log := embed_log s @ [data]\<rparr>"
  have body: "upload_search_body e (s\<lparr>local_files := (local_files s)(tmp \<mapsto> [])\<rparr>) f tmp k
      = (case ai_embed e data of
           Inl err \<Rightarrow> (Some err, ?s3)
         | Inr [] \<Rightarrow> (None, os_unlink tmp ?s3)
         | Inr (v # rest) \<Rightarrow> (None, os_unlink tmp (search_and_show e ?s3 f img v k)))"
    using assms
    by (simp add: upload_search_body_def session_file_put_def session_sql_embed_def Let_def
          split: sum.split list.split)
  have p3: "page ?s3 = page s" by simp
  show "embed_log (upload_search e s f tmp k) = embed_log s @ [data]"
    by (simp add: upload_search_def body Let_def st_emit_def os_unlink_def
          search_and_show_keeps split: sum.split list.split)
  show "stage (upload_search e s f tmp k) = (stage s)(stage_temp_dir @ basename tmp \<mapsto> data)"
    by (simp add: upload_search_def body Let_def st_emit_def os_unlink_def
          search_and_show_keeps split: sum.split list.split)
  show "page (upload_search e s f tmp k)
           = (case ai_embed e data of
                Inl err \<Rightarrow> page s @ [Error (cross_sign @ '' Upload search failed: '' @ str_exn err)]
              | Inr [] \<Rightarrow> page s
              | Inr (v # rest) \<Rightarrow> page (search_and_show e s f img v k))"
    by (simp add: upload_search_def body Let_def st_emit_def os_unlink_def
          search_and_show_page_cong [OF p3] split: sum.split list.split)
qed

section \<open>The claims\<close>

text \<open>
  C1, as amended. The ranking is the search service's: when the service answers,
  \<open>query_cortex_search\<close> returns one result per row of the answer, in the order of the
  answer and without sorting of its own (the i-th result carries the \<^verbatim>\<open>source_id\<close> of the
  i-th row), and a result has no entry under any key other than \<^verbatim>\<open>SOURCE_ID\<close>,
  \<^verbatim>\<open>ORIGINAL_URL\<close> and \<^verbatim>\<open>STAGE_FILE_PATH\<close>: it carries no distance.
\<close>

theorem search_keeps_service_order:
  assumes "cortex_search e v k = Inr rows"
  shows "map (\<lambda>r. map_of r ''SOURCE_ID'') (fst (query_cortex_search e s t v k))
           = map (\<lambda>row. Some (dict_get row ''source_id'' (PStr ''N/A''))) rows
         \<and> (\<forall>r \<in> set (fst (query_cortex_search e s t v k)). \<forall>key.
              key \<notin> {''SOURCE_ID'', ''ORIGINAL_URL'', ''STAGE_FILE_PATH''} \<longrightarrow> map_of r key = None)"
  using assms by (auto simp add: fst_query_cortex_search result_dict_def)

theorem search_keeps_service_order_witness:
  "cortex_search ex_env (Some [1, 0]) 2 = Inr ex_rows
   \<and> map (\<lambda>r. map_of r ''SOURCE_ID'') (fst (query_cortex_search ex_env ex_state ''q'' (Some [1, 0]) 2))
       = [Some (PStr ''img3''), Some (PStr ''img1'')]
   \<and> result_dict (hd ex_rows) \<in> set (fst (query_cortex_search ex_env ex_state ''q'' (Some [1, 0]) 2))
   \<and> ''distance'' \<notin> {''SOURCE_ID'', ''ORIGINAL_URL'', ''STAGE_FILE_PATH''}
   \<and> map_of (result_dict (hd ex_rows)) ''distance'' = None"
proof -
  have h: "cortex_search ex_env (Some [1, 0]) 2 = Inr ex_rows"
    by (simp add: ex_defs)
  have ids: "map (\<lambda>row. Some (dict_get row ''source_id'' (PStr ''N/A''))) ex_rows
          = [Some (PStr ''img3''), Some (PStr ''img1'')]"
    by (simp add: ex_rows_def dict_get_def)
  have m: "result_dict (hd ex_rows)
             \<in> set (fst (query_cortex_search ex_env ex_state ''q'' (Some [1, 0]) 2))"
    by (simp add: fst_query_cortex_search h ex_rows_def)
  have k: "''distance'' \<notin> {''SOURCE_ID'', ''ORIGINAL_URL'', ''STAGE_FILE_PATH''}"
    by simp
  note t = search_keeps_service_order [OF h, of ex_state "''q''"]
  have n: "map_of (result_dict (hd ex_rows)) ''distance'' = None"
    by (rule t [THEN conjunct2, THEN bspec, OF m, THEN spec, THEN mp, OF k])
  from t [THEN conjunct1] ids
  have o: "map (\<lambda>r. map_of r ''SOURCE_ID'')
             (fst (query_cortex_search ex_env ex_state ''q'' (Some [1, 0]) 2))
           = [Some (PStr ''img3''), Some (PStr ''img1'')]"
    by (rule trans)
  from h o m k n show ?thesis by blast
qed

text \<open>
  The specification's wording fails on the script: the service answers with \<^verbatim>\<open>img3\<close>
  before \<^verbatim>\<open>img1\<close>, the results come back in that order, and neither holds a distance.
\<close>

theorem search_results_carry_no_distance:
  "fst (query_cortex_search ex_env ex_state ''q'' (Some [1, 0]) 2) =
     [[(''SOURCE_ID'', PStr ''img3''), (''ORIGINAL_URL'', PStr ''https://img.example/3.jpg''),
       (''STAGE_FILE_PATH'', PStr ''N/A'')],
      [(''SOURCE_ID'', PStr ''img1''), (''ORIGINAL_URL'', PStr ''https://img.example/1.jpg''),
       (''STAGE_FILE_PATH'', PStr ''1.jpg'')]]
   \<and> map_of (hd (fst (query_cortex_search ex_env ex_state ''q'' (Some [1, 0]) 2))) ''distance''
       = None"
  by (simp add: query_cortex_search_def ex_defs result_dict_def dict_get_def)

text \<open>
  C2, as amended. \<open>query_cortex_search\<close> passes \<open>k\<close> to the service as its limit and selects
  nothing itself: it returns as many results as the service's answer has rows, hence at
  most \<open>k\<close> whenever the answer keeps to the limit, and none when the call to the service
  raises, whatever the size of the corpus.
\<close>

theorem search_length:
  "length (fst (query_cortex_search e s t v k))
     = (case cortex_search e v k of Inl err \<Rightarrow> 0 | Inr rows \<Rightarrow> length rows)
   \<and> (\<forall>rows. cortex_search e v k = Inr rows \<and> int (length rows) \<le> k
         \<longrightarrow> int (length (fst (query_cortex_search e s t v k))) \<le> k)"
  by (auto simp add: fst_query_cortex_search split: sum.split)

theorem search_length_witness:
  "cortex_search ex_env (Some [1, 0]) 1 = Inr (take 1 ex_rows)
   \<and> int (length (take 1 ex_rows)) \<le> 1
   \<and> length (fst (query_cortex_search ex_env ex_state ''q'' (Some [1, 0]) 1)) = 1"
proof -
  have h: "cortex_search ex_env (Some [1, 0]) 1 = Inr (take 1 ex_rows)"
    by (simp add: ex_defs)
  have l: "length (take 1 ex_rows) = 1"
    by (simp add: ex_rows_def)
  from search_length [of ex_env ex_state "''q''" "Some [1, 0]" 1] h l show ?thesis by simp
qed

text \<open>
  The specification's wording fails on the script: with two images in the corpus table
  and \<open>k = 1\<close>, an unreachable service leaves the search with no result at all.
\<close>

theorem search_empty_when_service_down:
  "table_scan ex_env_down = Inr ex_table \<and> length ex_table = 2
   \<and> fst (query_cortex_search ex_env_down ex_state ''q'' (Some [1, 0]) 1) = []"
  by (simp add: query_cortex_search_def ex_defs)

text \<open>
  C3, as amended. \<open>query_cortex_search\<close> checks nothing itself, neither the dimension of
  the vector nor \<open>k \<ge> 1\<close>: for every vector and every \<open>k\<close> the outcome is the one of the call
  to the service. When that call raises, the function returns the empty list (no partial
  results) after writing three error lines to the page, the exception is not passed on to
  the caller; when it answers, the rows are returned and the page is left as it was.
\<close>

theorem search_delegates_unchecked:
  "(\<forall>err. cortex_search e v k = Inl err \<longrightarrow>
      fst (query_cortex_search e s t v k) = []
      \<and> page (snd (query_cortex_search e s t v k))
          = page s @ [Error (''Search error: '' @ str_exn err),
                      Error (''Query text: '' @ t),
                      Error (''Vector length: '' @ vector_length_text v)])
   \<and> (\<forall>rows. cortex_search e v k = Inr rows \<longrightarrow>
      query_cortex_search e s t v k = (map result_dict rows, s))"
  by (simp add: query_cortex_search_def st_emit_def)

theorem search_delegates_unchecked_witness:
  "cortex_search ex_env (Some []) (- 1) = Inl (Exception ''dimension mismatch'')
   \<and> fst (query_cortex_search ex_env ex_state ''q'' (Some []) (- 1)) = []
   \<and> cortex_search ex_env (Some [1, 0]) 1 = Inr (take 1 ex_rows)
   \<and> query_cortex_search ex_env ex_state ''q'' (Some [1, 0]) 1
       = (map result_dict (take 1 ex_rows), ex_state)"
proof -
  have a: "cortex_search ex_env (Some []) (- 1) = Inl (Exception ''dimension mismatch'')"
    by (simp add: ex_defs)
  have b: "cortex_search ex_env (Some [1, 0]) 1 = Inr (take 1 ex_rows)"
    by (simp add: ex_defs)
  from search_delegates_unchecked [of ex_env "Some []" "- 1" ex_state "''q''"] a
  have "fst (query_cortex_search ex_env ex_state ''q'' (Some []) (- 1)) = []" by simp
  moreover from search_delegates_unchecked [of ex_env "Some [1, 0]" 1 ex_state "''q''"] b
  have "query_cortex_search ex_env ex_state ''q'' (Some [1, 0]) 1
          = (map result_dict (take 1 ex_rows), ex_state)" by simp
  ultimately show ?thesis using a b by simp
qed

text \<open>
  The specification's wording fails on the script: a vector of three dimensions and
  \<open>k = 0\<close> go to the service unchecked, and its refusal comes back as an ordinary empty
  list. The upload search, given such a vector by the embedding model, goes on to report
  success with zero images.
\<close>

theorem search_failure_not_raised:
  "query_cortex_search ex_env ex_state ''cat.png'' (Some [1, 0, 0]) 0
     = ([], ex_state\<lparr>page := [Error ''Search error: dimension mismatch'',
                               Error ''Query text: cat.png'',
                               Error ''Vector length: 3'']\<rparr>)
   \<and> page (upload_search ex_env_wide ex_state ex_file ''/tmp/tmpab12.jpeg'' 10)
     = [Error ''Search error: dimension mismatch'',
        Error ''Query text: cat.png'',
        Error ''Vector length: 3'',
        Warning ''No results to display'',
        Success (check_sign @ '' Found 0 similar images!'')]"
  by (simp add: ex_defs run_defs)

text \<open>
  C4, as amended. The upload path has no fingerprint and no embedding cache. Whatever
  earlier runs left behind (also when the same bytes have been embedded before), a run of
  the upload search in which the image opens, is converted to RGB where its mode is
  another, is saved as JPEG and is put on the stage runs the embedding statement exactly
  once, on the saved bytes, and acts on the answer: an exception is reported as
  \<^verbatim>\<open>Upload search failed\<close>, an answer without rows ends the run with nothing
  written, and the first row of an answer is the vector the search is made with. A run that
  fails before the staging does not run the statement. So the same bytes uploaded twice
  are embedded twice.
\<close>

theorem upload_embeds_once_per_run:
  "(case image_open e (content f) of
      Inl err \<Rightarrow> embed_log (upload_search e s f tmp k) = embed_log s
    | Inr opened \<Rightarrow>
        (case (if mode opened \<noteq> ''RGB''
               then (case recode e (mode opened) ''RGB'' (pixels opened) of
                       Inl err \<Rightarrow> Inl err
                     | Inr px \<Rightarrow> Inr \<lparr>mode = ''RGB'', pixels = px\<rparr>)
               else Inr opened) of
           Inl err \<Rightarrow> embed_log (upload_search e s f tmp k) = embed_log s
         | Inr img \<Rightarrow>
             (case image_save e img ''JPEG'' of
                Inl err \<Rightarrow> embed_log (upload_search e s f tmp k) = embed_log s
              | Inr data \<Rightarrow>
                  (case file_put e tmp stage_temp_dir of
                     Some err \<Rightarrow> embed_log (upload_search e s f tmp k) = embed_log s
                   | None \<Rightarrow>
                       embed_log (upload_search e s f tmp k) = embed_log s @ [data]
                       \<and> (case ai_embed e data of
                            Inl err \<Rightarrow>
                              page (upload_search e s f tmp k)
                                = page s @ [Error (cross_sign @ '' Upload search failed: ''
                                                     @ str_exn err)]
                          | Inr [] \<Rightarrow> page (upload_search e s f tmp k) = page s
                          | Inr (v # rest) \<Rightarrow>
                              page (upload_search e s f tmp k)
                                = page (display_image_grid e
                                          (snd (query_cortex_search e s (name f) v k))
                                          (fst (query_cortex_search e s (name f) v k))
                                          (Some \<lparr>uploaded_image = Some img, url = None,
                                                  file_path = Some (PStr (name f)),
                                                  source_id = None\<rparr>))
                                  @ [Success (check_sign @ '' Found ''
                                       @ str_nat (length (fst (query_cortex_search e s (name f) v k)))
                                       @ '' similar images!'')])))))"
proof (cases "image_open e (content f)")
  case o: (Inl err)
  have "embed_log (upload_search e s f tmp k) = embed_log s"
    by (rule upload_search_early_failure) (simp add: o)
  then show ?thesis unfolding o sum.case .
next
  case o: (Inr opened)
  show ?thesis
  proof (cases "to_rgb e opened")
    case c: (Inl err)
    note c' = c [unfolded to_rgb_spelled]
    have "embed_log (upload_search e s f tmp k) = embed_log s"
      by (rule upload_search_early_failure) (simp add: o c)
    then show ?thesis unfolding o sum.case c' .
  next
    case c: (Inr img)
    note c' = c [unfolded to_rgb_spelled]
    show ?thesis
    proof (cases "image_save e img ''JPEG''")
      case d: (Inl err)
      have "embed_log (upload_search e s f tmp k) = embed_log s"
        by (rule upload_search_early_failure) (simp add: o c d)
      then show ?thesis unfolding o sum.case c' d .
    next
      case d: (Inr data)
      show ?thesis
      proof (cases "file_put e tmp stage_temp_dir")
        case p: (Some err)
        have "embed_log (upload_search e s f tmp k) = embed_log s"
          by (rule upload_search_early_failure) (simp add: o c d p)
        then show ?thesis unfolding o sum.case c' d p option.case .
      next
        case p: None
        note run = upload_search_staged [OF o c d p, of s k]
        have "embed_log (upload_search e s f tmp k) = embed_log s @ [data]
              \<and> (case ai_embed e data of
                   Inl err \<Rightarrow>
                     page (upload_search e s f tmp k)
                       = page s @ [Error (cross_sign @ '' Upload search failed: ''
                                            @ str_exn err)]
                 | Inr [] \<Rightarrow> page (upload_search e s f tmp k) = page s
                 | Inr (v # rest) \<Rightarrow>
                     page (upload_search e s f tmp k)
                       = page (display_image_grid e
                                 (snd (query_cortex_search e s (name f) v k))
                                 (fst (query_cortex_search e s (name f) v k))
                                 (Some \<lparr>uploaded_image = Some img, url = None,
                                         file_path = Some (PStr (name f)),
                                         source_id = None\<rparr>))
                         @ [Success (check_sign @ '' Found ''
                              @ str_nat (length (fst (query_cortex_search e s (name f) v k)))
                              @ '' similar images!'')])"
          by (simp add: run search_and_show_page split: sum.split list.split)
        then show ?thesis unfolding o sum.case c' d p option.case .
      qed
    qed
  qed
qed

theorem upload_embeds_once_per_run_witness:
  "image_open ex_env (content ex_file) = Inr \<lparr>mode = ''RGBA'', pixels = [137, 80, 78, 71]\<rparr>
   \<and> embed_log (upload_search ex_env
                   (upload_search ex_env ex_state ex_file ''/tmp/tmpab12.jpeg'' 10)
                   ex_file ''/tmp/tmpcd34.jpeg'' 10)
       = embed_log (upload_search ex_env ex_state ex_file ''/tmp/tmpab12.jpeg'' 10)
         @ [[255, 216, 137, 80, 78, 71]]
   \<and> embed_log (upload_search ex_env ex_state ex_file ''/tmp/tmpab12.jpeg'' 10)
       = [[255, 216, 137, 80, 78, 71]]
   \<and> image_open ex_env (content (ex_file\<lparr>content := []\<rparr>))
       = Inl (Exception ''cannot identify image file'')
   \<and> embed_log (upload_search ex_env ex_state (ex_file\<lparr>content := []\<rparr>)
                   ''/tmp/tmpab12.jpeg'' 10) = []"
proof -
  have o: "image_open ex_env (content ex_file)
             = Inr \<lparr>mode = ''RGBA'', pixels = [137, 80, 78, 71]\<rparr>"
    and r: "recode ex_env ''RGBA'' ''RGB'' [137, 80, 78, 71] = Inr [137, 80, 78, 71]"
    and d: "image_save ex_env \<lparr>mode = ''RGB'', pixels = [137, 80, 78, 71]\<rparr> ''JPEG''
             = Inr [255, 216, 137, 80, 78, 71]"
    and p: "file_put ex_env ''/tmp/tmpab12.jpeg'' stage_temp_dir = None"
           "file_put ex_env ''/tmp/tmpcd34.jpeg'' stage_temp_dir = None"
    and n: "image_open ex_env [] = Inl (Exception ''cannot identify image file'')"
    and l: "embed_log ex_state = []"
    by (simp_all add: ex_defs)
  from upload_embeds_once_per_run [where e = ex_env and s = ex_state and f = ex_file
      and tmp = "''/tmp/tmpab12.jpeg''" and k = 10]
  have 1: "embed_log (upload_search ex_env ex_state ex_file ''/tmp/tmpab12.jpeg'' 10)
             = [[255, 216, 137, 80, 78, 71]]"
    by (simp add: o r d p l)
  from upload_embeds_once_per_run [where e = ex_env
      and s = "upload_search ex_env ex_state ex_file ''/tmp/tmpab12.jpeg'' 10" and f = ex_file
      and tmp = "''/tmp/tmpcd34.jpeg''" and k = 10]
  have 2: "embed_log (upload_search ex_env
                   (upload_search ex_env ex_state ex_file ''/tmp/tmpab12.jpeg'' 10)
                   ex_file ''/tmp/tmpcd34.jpeg'' 10)
       = embed_log (upload_search ex_env ex_state ex_file ''/tmp/tmpab12.jpeg'' 10)
         @ [[255, 216, 137, 80, 78, 71]]"
    by (simp add: o r d p)
  from upload_embeds_once_per_run [where e = ex_env and s = ex_state
      and f = "ex_file\<lparr>content := []\<rparr>" and tmp = "''/tmp/tmpab12.jpeg''" and k = 10]
  have 3: "embed_log (upload_search ex_env ex_state (ex_file\<lparr>content := []\<rparr>)
                   ''/tmp/tmpab12.jpeg'' 10) = []"
    by (simp add: n l)
  from o n 1 2 3 show ?thesis by simp
qed

text \<open>
  The specification's wording fails on the script: the same four bytes uploaded twice
  make two runs of the embedding model, on the same re-encoded file.
\<close>

theorem same_upload_embedded_twice:
  "embed_log (upload_search ex_env
                (upload_search ex_env ex_state ex_file ''/tmp/tmpab12.jpeg'' 10)
                ex_file ''/tmp/tmpcd34.jpeg'' 10)
     = [[255, 216, 137, 80, 78, 71], [255, 216, 137, 80, 78, 71]]"
  by (simp add: ex_defs run_defs)

text \<open>
  C5, as amended. On an empty index, where the service has no row to answer with,
  \<open>query_cortex_search\<close> returns the empty list for every vector and every \<open>k\<close>, and it
  never raises. When the service answers, nothing is written to the page and the state is
  as before; when the service raises instead, as it may for a vector or a \<open>k\<close> that it
  rejects, the three error lines are written to the page.
\<close>

theorem search_on_empty_index:
  assumes "\<forall>rows. cortex_search e v k = Inr rows \<longrightarrow> rows = []"
  shows "fst (query_cortex_search e s t v k) = []
     \<and> (case cortex_search e v k of
          Inr rows \<Rightarrow> snd (query_cortex_search e s t v k) = s
        | Inl err \<Rightarrow>
            page (snd (query_cortex_search e s t v k))
              = page s @ [Error (''Search error: '' @ str_exn err),
                          Error (''Query text: '' @ t),
                          Error (''Vector length: '' @ vector_length_text v)])"
  using assms
  by (cases "cortex_search e v k") (simp_all add: query_cortex_search_def st_emit_def)

theorem search_on_empty_index_witness:
  "cortex_search ex_env_void (Some [1, 0]) 5 = Inr []
   \<and> query_cortex_search ex_env_void ex_state ''q'' (Some [1, 0]) 5 = ([], ex_state)
   \<and> cortex_search ex_env_void (Some [1, 0]) 0 = Inl (Exception ''limit must be positive'')
   \<and> fst (query_cortex_search ex_env_void ex_state ''q'' (Some [1, 0]) 0) = []
   \<and> page (snd (query_cortex_search ex_env_void ex_state ''q'' (Some [1, 0]) 0))
       = [Error ''Search error: limit must be positive'', Error ''Query text: q'',
          Error ''Vector length: 2'']"
proof -
  have a: "cortex_search ex_env_void (Some [1, 0]) 5 = Inr []"
    and b: "cortex_search ex_env_void (Some [1, 0]) 0 = Inl (Exception ''limit must be positive'')"
    by (simp_all add: ex_defs)
  have h5: "\<forall>rows. cortex_search ex_env_void (Some [1, 0]) 5 = Inr rows \<longrightarrow> rows = []"
    by (simp add: a)
  have h0: "\<forall>rows. cortex_search ex_env_void (Some [1, 0]) 0 = Inr rows \<longrightarrow> rows = []"
    by (simp add: b)
  from search_on_empty_index [OF h5, of ex_state "''q''"]
  have 1: "query_cortex_search ex_env_void ex_state ''q'' (Some [1, 0]) 5 = ([], ex_state)"
    by (simp add: a prod_eq_iff)
  from search_on_empty_index [OF h0, of ex_state "''q''"]
  have 2: "fst (query_cortex_search ex_env_void ex_state ''q'' (Some [1, 0]) 0) = []
           \<and> page (snd (query_cortex_search ex_env_void ex_state ''q'' (Some [1, 0]) 0))
               = [Error ''Search error: limit must be positive'', Error ''Query text: q'',
                  Error ''Vector length: 2'']"
    by (simp add: b ex_state_def vector_length_text_def str_nat_small)
  from a b 1 2 show ?thesis by simp
qed

text \<open>
  The specification's wording fails on the script: the table and the index are empty, the
  service answers a valid query with no rows and rejects \<open>k = 0\<close>, and for that \<open>k\<close> the
  search signals the error on the page.
\<close>

theorem search_on_empty_index_signals_error:
  "table_scan ex_env_void = Inr []
   \<and> cortex_search ex_env_void (Some [1, 0]) 5 = Inr []
   \<and> query_cortex_search ex_env_void ex_state ''q'' (Some [1, 0]) 0
       = ([], ex_state\<lparr>page := [Error ''Search error: limit must be positive'',
                                 Error ''Query text: q'',
                                 Error ''Vector length: 2'']\<rparr>)"
  by (simp add: ex_defs run_defs)

text \<open>
  C7, as amended. \<open>query_cortex_search\<close> adds no variation of its own: two calls with the
  same vector and the same \<open>k\<close> return the same list whenever the service gives both the
  same answer, whatever the page, the cache, the files and the query text are at either
  call. Whether the service ranks alike on repeated calls is the service's matter. With
  the corpus as it was, the lists do differ when the service answers one call with rows
  and raises on the other.
\<close>

theorem search_repeats_with_service:
  "(cortex_search e1 v k = cortex_search e2 v k \<longrightarrow>
      fst (query_cortex_search e1 s1 t1 v k) = fst (query_cortex_search e2 s2 t2 v k))
   \<and> (\<forall>rows err. cortex_search e1 v k = Inr rows \<and> rows \<noteq> []
                   \<and> cortex_search e2 v k = Inl err \<longrightarrow>
        fst (query_cortex_search e1 s1 t1 v k) \<noteq> fst (query_cortex_search e2 s2 t2 v k))"
  by (auto simp add: fst_query_cortex_search)

theorem search_repeats_with_service_witness:
  "cortex_search ex_env (Some [1, 0]) 2 = cortex_search ex_env (Some [1, 0]) 2
   \<and> fst (query_cortex_search ex_env ex_state ''first'' (Some [1, 0]) 2)
       = fst (query_cortex_search ex_env
                (snd (query_cortex_search ex_env ex_state ''first'' (Some [1, 0]) 2))
                ''second'' (Some [1, 0]) 2)
   \<and> cortex_search ex_env (Some [1, 0]) 2 = Inr ex_rows \<and> ex_rows \<noteq> []
   \<and> cortex_search ex_env_down (Some [1, 0]) 2 = Inl (Exception ''service unavailable'')
   \<and> fst (query_cortex_search ex_env ex_state ''first'' (Some [1, 0]) 2)
       \<noteq> fst (query_cortex_search ex_env_down ex_state ''second'' (Some [1, 0]) 2)"
proof -
  have a: "cortex_search ex_env (Some [1, 0]) 2 = Inr ex_rows"
    and n: "ex_rows \<noteq> []"
    and b: "cortex_search ex_env_down (Some [1, 0]) 2 = Inl (Exception ''service unavailable'')"
    by (simp_all add: ex_defs)
  note t1 = search_repeats_with_service [where ?e1.0 = ex_env and ?e2.0 = ex_env
      and v = "Some [1, 0]" and k = 2 and ?s1.0 = ex_state
      and ?s2.0 = "snd (query_cortex_search ex_env ex_state ''first'' (Some [1, 0]) 2)"
      and ?t1.0 = "''first''" and ?t2.0 = "''second''"]
  note t2 = search_repeats_with_service [where ?e1.0 = ex_env and ?e2.0 = ex_env_down
      and v = "Some [1, 0]" and k = 2 and ?s1.0 = ex_state and ?s2.0 = ex_state
      and ?t1.0 = "''first''" and ?t2.0 = "''second''"]
  from t1 have 1: "fst (query_cortex_search ex_env ex_state ''first'' (Some [1, 0]) 2)
       = fst (query_cortex_search ex_env
                (snd (query_cortex_search ex_env ex_state ''first'' (Some [1, 0]) 2))
                ''second'' (Some [1, 0]) 2)"
    by simp
  from t2 [THEN conjunct2, THEN spec, THEN spec, THEN mp, of ex_rows "Exception ''service unavailable''"]
    a n b
  have 2: "fst (query_cortex_search ex_env ex_state ''first'' (Some [1, 0]) 2)
       \<noteq> fst (query_cortex_search ex_env_down ex_state ''second'' (Some [1, 0]) 2)"
    by simp
  from a n b 1 2 show ?thesis by simp
qed

text \<open>
  The specification's wording fails on the script: over the same table and for the same
  vector and \<open>k\<close>, the call made while the service is reachable returns two results and the
  call made while it is not returns none.
\<close>

theorem search_differs_when_service_fails:
  "table_scan ex_env_down = table_scan ex_env
   \<and> fst (query_cortex_search ex_env ex_state ''q'' (Some [1, 0]) 2)
       = [[(''SOURCE_ID'', PStr ''img3''), (''ORIGINAL_URL'', PStr ''https://img.example/3.jpg''),
           (''STAGE_FILE_PATH'', PStr ''N/A'')],
          [(''SOURCE_ID'', PStr ''img1''), (''ORIGINAL_URL'', PStr ''https://img.example/1.jpg''),
           (''STAGE_FILE_PATH'', PStr ''1.jpg'')]]
   \<and> fst (query_cortex_search ex_env_down ex_state ''q'' (Some [1, 0]) 2) = []"
  by (simp add: query_cortex_search_def ex_defs result_dict_def dict_get_def)

text \<open>
  C8. Every element of the list returned by \<open>query_cortex_search\<close> is a dict with exactly
  the keys \<^verbatim>\<open>SOURCE_ID\<close>, \<^verbatim>\<open>ORIGINAL_URL\<close> and \<^verbatim>\<open>STAGE_FILE_PATH\<close>, in that order, built
  from one row of the service's answer, with \<^verbatim>\<open>N/A\<close>, the empty string and \<^verbatim>\<open>N/A\<close> where
  the row lacks the column; no distance or score is among them.
\<close>

theorem search_result_keys:
  assumes "r \<in> set (fst (query_cortex_search e s t v k))"
  shows "map fst r = [''SOURCE_ID'', ''ORIGINAL_URL'', ''STAGE_FILE_PATH'']
     \<and> (\<exists>rows row. cortex_search e v k = Inr rows \<and> row \<in> set rows
           \<and> r = [(''SOURCE_ID'',
                    case map_of row ''source_id'' of None \<Rightarrow> PStr ''N/A'' | Some x \<Rightarrow> x),
                   (''ORIGINAL_URL'',
                    case map_of row ''original_url'' of None \<Rightarrow> PStr '''' | Some x \<Rightarrow> x),
                   (''STAGE_FILE_PATH'',
                    case map_of row ''stage_file_path'' of None \<Rightarrow> PStr ''N/A'' | Some x \<Rightarrow> x)])"
proof (cases "cortex_search e v k")
  case (Inl err)
  with assms show ?thesis by (simp add: fst_query_cortex_search)
next
  case (Inr rows)
  with assms obtain row where "row \<in> set rows" and "r = result_dict row"
    by (auto simp add: fst_query_cortex_search)
  with Inr show ?thesis
    by (auto simp add: result_dict_def dict_get_def)
qed

theorem search_result_keys_witness:
  "[(''SOURCE_ID'', PStr ''img3''), (''ORIGINAL_URL'', PStr ''https://img.example/3.jpg''),
    (''STAGE_FILE_PATH'', PStr ''N/A'')]
     \<in> set (fst (query_cortex_search ex_env ex_state ''q'' (Some [1, 0]) 2))
   \<and> map fst [(''SOURCE_ID'', PStr ''img3''),
               (''ORIGINAL_URL'', PStr ''https://img.example/3.jpg''),
               (''STAGE_FILE_PATH'', PStr ''N/A'')]
       = [''SOURCE_ID'', ''ORIGINAL_URL'', ''STAGE_FILE_PATH'']"
proof -
  have h: "[(''SOURCE_ID'', PStr ''img3''), (''ORIGINAL_URL'', PStr ''https://img.example/3.jpg''),
            (''STAGE_FILE_PATH'', PStr ''N/A'')]
             \<in> set (fst (query_cortex_search ex_env ex_state ''q'' (Some [1, 0]) 2))"
    by (simp add: ex_defs run_defs)
  from search_result_keys [OF h] h show ?thesis by simp
qed

text \<open>
  C9. For every uploaded file, whatever its format. If the image does not open, if its
  conversion to RGB or its saving raises, or if the file cannot be put on the stage, nothing
  is staged and the embedding model is not run. Otherwise the image that is saved is the
  opened one if its mode is RGB and else its conversion to RGB, so it is in RGB mode; it is
  encoded as JPEG; the encoded bytes are what the stage holds under \<^verbatim>\<open>@IMAGES/temp/\<close>
  and the base name of the temporary file; the one run of the embedding model is on these
  bytes, not on the uploaded ones; and the vector the search is made with is the first row
  of the model's answer for these bytes.
\<close>

theorem upload_embeds_reencoded_jpeg:
  "(case image_open e (content f) of
      Inl err \<Rightarrow>
        embed_log (upload_search e s f tmp k) = embed_log s
        \<and> stage (upload_search e s f tmp k) = stage s
    | Inr opened \<Rightarrow>
        (case (if mode opened \<noteq> ''RGB''
               then (case recode e (mode opened) ''RGB'' (pixels opened) of
                       Inl err \<Rightarrow> Inl err
                     | Inr px \<Rightarrow> Inr \<lparr>mode = ''RGB'', pixels = px\<rparr>)
               else Inr opened) of
           Inl err \<Rightarrow>
             embed_log (upload_search e s f tmp k) = embed_log s
             \<and> stage (upload_search e s f tmp k) = stage s
         | Inr img \<Rightarrow>
             mode img = ''RGB''
             \<and> (case image_save e img ''JPEG'' of
                  Inl err \<Rightarrow>
                    embed_log (upload_search e s f tmp k) = embed_log s
                    \<and> stage (upload_search e s f tmp k) = stage s
                | Inr data \<Rightarrow>
                    (case file_put e tmp stage_temp_dir of
                       Some err \<Rightarrow>
                         embed_log (upload_search e s f tmp k) = embed_log s
                         \<and> stage (upload_search e s f tmp k) = stage s
                     | None \<Rightarrow>
                         stage (upload_search e s f tmp k)
                           = (stage s)(''@IMAGES/temp/'' @ basename tmp \<mapsto> data)
                         \<and> embed_log (upload_search e s f tmp k) = embed_log s @ [data]
                         \<and> (\<forall>v rest. ai_embed e data = Inr (v # rest) \<longrightarrow>
                               page (upload_search e s f tmp k)
                                 = page (display_image_grid e
                                           (snd (query_cortex_search e s (name f) v k))
                                           (fst (query_cortex_search e s (name f) v k))
                                           (Some \<lparr>uploaded_image = Some img, url = None,
                                                   file_path = Some (PStr (name f)),
                                                   source_id = None\<rparr>))
                                   @ [Success (check_sign @ '' Found ''
                                        @ str_nat (length (fst (query_cortex_search e s
                                                                  (name f) v k)))
                                        @ '' similar images!'')])))))"
proof (cases "image_open e (content f)")
  case o: (Inl err)
  have "embed_log (upload_search e s f tmp k) = embed_log s
        \<and> stage (upload_search e s f tmp k) = stage s"
    by (rule conjI; rule upload_search_early_failure) (simp_all add: o)
  then show ?thesis unfolding o sum.case .
next
  case o: (Inr opened)
  show ?thesis
  proof (cases "to_rgb e opened")
    case c: (Inl err)
    note c' = c [unfolded to_rgb_spelled]
    have "embed_log (upload_search e s f tmp k) = embed_log s
          \<and> stage (upload_search e s f tmp k) = stage s"
      by (rule conjI; rule upload_search_early_failure) (simp_all add: o c)
    then show ?thesis unfolding o sum.case c' .
  next
    case c: (Inr img)
    note c' = c [unfolded to_rgb_spelled]
    note m = to_rgb_mode [OF c]
    show ?thesis
    proof (cases "image_save e img ''JPEG''")
      case d: (Inl err)
      have "embed_log (upload_search e s f tmp k) = embed_log s
            \<and> stage (upload_search e s f tmp k) = stage s"
        by (rule conjI; rule upload_search_early_failure) (simp_all add: o c d)
      with m have "mode img = ''RGB''
            \<and> embed_log (upload_search e s f tmp k) = embed_log s
            \<and> stage (upload_search e s f tmp k) = stage s"
        by simp
      then show ?thesis unfolding o sum.case c' d .
    next
      case d: (Inr data)
      show ?thesis
      proof (cases "file_put e tmp stage_temp_dir")
        case p: (Some err)
        have "embed_log (upload_search e s f tmp k) = embed_log s
              \<and> stage (upload_search e s f tmp k) = stage s"
          by (rule conjI; rule upload_search_early_failure) (simp_all add: o c d p)
        with m have "mode img = ''RGB''
              \<and> embed_log (upload_search e s f tmp k) = embed_log s
              \<and> stage (upload_search e s f tmp k) = stage s"
          by simp
        then show ?thesis unfolding o sum.case c' d p option.case .
      next
        case p: None
        note run = upload_search_staged [OF o c d p, of s k]
        have dir: "stage_temp_dir = ''@IMAGES/temp/''"
          by (simp add: stage_temp_dir_def STAGE_NAME_def)
        have "mode img = ''RGB''
              \<and> stage (upload_search e s f tmp k)
                  = (stage s)(''@IMAGES/temp/'' @ basename tmp \<mapsto> data)
              \<and> embed_log (upload_search e s f tmp k) = embed_log s @ [data]
              \<and> (\<forall>v rest. ai_embed e data = Inr (v # rest) \<longrightarrow>
                    page (upload_search e s f tmp k)
                      = page (display_image_grid e
                                (snd (query_cortex_search e s (name f) v k))
                                (fst (query_cortex_search e s (name f) v k))
                                (Some \<lparr>uploaded_image = Some img, url = None,
                                        file_path = Some (PStr (name f)),
                                        source_id = None\<rparr>))
                        @ [Success (check_sign @ '' Found ''
                             @ str_nat (length (fst (query_cortex_search e s
                                                       (name f) v k)))
                             @ '' similar images!'')])"
          using m run(1) run(2) [unfolded dir] run(3)
          by (simp add: search_and_show_page)
        then show ?thesis unfolding o sum.case c' d p option.case .
      qed
    qed
  qed
qed

theorem upload_embeds_reencoded_jpeg_witness:
  "image_open ex_env (content ex_file) = Inr \<lparr>mode = ''RGBA'', pixels = [137, 80, 78, 71]\<rparr>
   \<and> recode ex_env ''RGBA'' ''RGB'' [137, 80, 78, 71] = Inr [137, 80, 78, 71]
   \<and> image_save ex_env \<lparr>mode = ''RGB'', pixels = [137, 80, 78, 71]\<rparr> ''JPEG''
       = Inr [255, 216, 137, 80, 78, 71]
   \<and> ai_embed ex_env [255, 216, 137, 80, 78, 71] = Inr [Some [1, 0]]
   \<and> embed_log (upload_search ex_env ex_state ex_file ''/tmp/tmpab12.jpeg'' 10)
       = [[255, 216, 137, 80, 78, 71]]
   \<and> stage (upload_search ex_env ex_state ex_file ''/tmp/tmpab12.jpeg'' 10)
         ''@IMAGES/temp/tmpab12.jpeg'' = Some [255, 216, 137, 80, 78, 71]
   \<and> page (upload_search ex_env ex_state ex_file ''/tmp/tmpab12.jpeg'' 10)
       = page (display_image_grid ex_env
                 (snd (query_cortex_search ex_env ex_state ''cat.png'' (Some [1, 0]) 10))
                 (fst (query_cortex_search ex_env ex_state ''cat.png'' (Some [1, 0]) 10))
                 (Some \<lparr>uploaded_image = Some \<lparr>mode = ''RGB'', pixels = [137, 80, 78, 71]\<rparr>,
                         url = None, file_path = Some (PStr ''cat.png''), source_id = None\<rparr>))
         @ [Success (check_sign @ '' Found ''
              @ str_nat (length (fst (query_cortex_search ex_env ex_state ''cat.png''
                                        (Some [1, 0]) 10)))
              @ '' similar images!'')]"
proof -
  have o: "image_open ex_env (content ex_file)
             = Inr \<lparr>mode = ''RGBA'', pixels = [137, 80, 78, 71]\<rparr>"
    and r: "recode ex_env ''RGBA'' ''RGB'' [137, 80, 78, 71] = Inr [137, 80, 78, 71]"
    and d: "image_save ex_env \<lparr>mode = ''RGB'', pixels = [137, 80, 78, 71]\<rparr> ''JPEG''
             = Inr [255, 216, 137, 80, 78, 71]"
    and p: "file_put ex_env ''/tmp/tmpab12.jpeg'' stage_temp_dir = None"
    and a: "ai_embed ex_env [255, 216, 137, 80, 78, 71] = Inr [Some [1, 0]]"
    and l: "embed_log ex_state = []" "stage ex_state = Map.empty"
    and n: "name ex_file = ''cat.png''"
    and b: "basename ''/tmp/tmpab12.jpeg'' = ''tmpab12.jpeg''"
    by (simp_all add: ex_defs basename_def)
  from upload_embeds_reencoded_jpeg [where e = ex_env and s = ex_state and f = ex_file
      and tmp = "''/tmp/tmpab12.jpeg''" and k = 10]
  have "embed_log (upload_search ex_env ex_state ex_file ''/tmp/tmpab12.jpeg'' 10)
       = [[255, 216, 137, 80, 78, 71]]
   \<and> stage (upload_search ex_env ex_state ex_file ''/tmp/tmpab12.jpeg'' 10)
         ''@IMAGES/temp/tmpab12.jpeg'' = Some [255, 216, 137, 80, 78, 71]
   \<and> page (upload_search ex_env ex_state ex_file ''/tmp/tmpab12.jpeg'' 10)
       = page (display_image_grid ex_env
                 (snd (query_cortex_search ex_env ex_state ''cat.png'' (Some [1, 0]) 10))
                 (fst (query_cortex_search ex_env ex_state ''cat.png'' (Some [1, 0]) 10))
                 (Some \<lparr>uploaded_image = Some \<lparr>mode = ''RGB'', pixels = [137, 80, 78, 71]\<rparr>,
                         url = None, file_path = Some (PStr ''cat.png''), source_id = None\<rparr>))
         @ [Success (check_sign @ '' Found ''
              @ str_nat (length (fst (query_cortex_search ex_env ex_state ''cat.png''
                                        (Some [1, 0]) 10)))
              @ '' similar images!'')]"
    by (simp add: o r d p a l n b)
  with o r d a show ?thesis by simp
qed

text \<open>
  C10. When \<open>get_available_images\<close> runs its query (nothing is cached yet) and the query
  raises, it returns the empty list, which is also what it returns for an empty table, so
  the returned value does not tell the two apart; when the query succeeds it returns the
  rows of the table, each as often as the table holds it, in ascending order of
  \<^verbatim>\<open>SOURCE_ID\<close>.
\<close>

theorem get_available_images_result:
  assumes "images_cache s = None"
  shows "(\<forall>err. table_scan e = Inl err \<longrightarrow> fst (get_available_images e s) = [])
     \<and> (table_scan e = Inr [] \<longrightarrow> fst (get_available_images e s) = [])
     \<and> (\<forall>rows. table_scan e = Inr rows \<longrightarrow>
           sorted (map SOURCE_ID (fst (get_available_images e s)))
           \<and> mset (fst (get_available_images e s)) = mset rows)"
  using assms
  by (simp add: get_available_images_def get_available_images_body_def session_sql_images_def)

theorem get_available_images_result_witness:
  "images_cache ex_state = None
   \<and> table_scan ex_env_lost = Inl (Exception ''table does not exist'')
   \<and> fst (get_available_images ex_env_lost ex_state) = []
   \<and> table_scan ex_env_empty = Inr []
   \<and> fst (get_available_images ex_env_empty ex_state) = []
   \<and> table_scan ex_env = Inr ex_table
   \<and> sorted (map SOURCE_ID (fst (get_available_images ex_env ex_state)))
   \<and> mset (fst (get_available_images ex_env ex_state)) = mset ex_table"
proof -
  have c: "images_cache ex_state = None" by (simp add: ex_state_def)
  have a: "table_scan ex_env_lost = Inl (Exception ''table does not exist'')"
    and b: "table_scan ex_env_empty = Inr []"
    and d: "table_scan ex_env = Inr ex_table"
    by (simp_all add: ex_env_lost_def ex_env_empty_def ex_env_def)
  from get_available_images_result [OF c, of ex_env_lost] a
  have 1: "fst (get_available_images ex_env_lost ex_state) = []" by simp
  from get_available_images_result [OF c, of ex_env_empty] b
  have 2: "fst (get_available_images ex_env_empty ex_state) = []" by simp
  from get_available_images_result [OF c, of ex_env] d
  have 3: "sorted (map SOURCE_ID (fst (get_available_images ex_env ex_state)))
           \<and> mset (fst (get_available_images ex_env ex_state)) = mset ex_table" by simp
  from c a b d 1 2 3 show ?thesis by simp
qed

end
